theory Spec2Isabelle
  imports Complex_Main
begin

section \<open>Decimal numbers of the bignumber.js library\<close>

text \<open>
  The vault calculator computes on \<^verbatim>\<open>BigNumber\<close> objects of the bignumber.js
  library. A BigNumber is a sign \<^verbatim>\<open>s\<close>, a coefficient \<^verbatim>\<open>c\<close> and an
  exponent \<^verbatim>\<open>e\<close>. Besides the finite decimals it has the values NaN (sign
  \<^verbatim>\<open>null\<close>), plus and minus Infinity (coefficient \<^verbatim>\<open>null\<close>), and a zero
  of either sign: \<^verbatim>\<open>new BigNumber(0)\<close> has sign 1, \<^verbatim>\<open>new BigNumber(-0)\<close>
  has sign -1. The arithmetic never throws: an undefined case gives NaN or an
  infinity, as in IEEE 754.

  The finite values are modelled by the rationals: \<open>Num 0\<close> is the zero of
  positive sign, \<open>NZero\<close> the zero of negative sign. Sums, differences and
  products are exact in the library; a quotient is rounded to
  \<^verbatim>\<open>DECIMAL_PLACES\<close> decimal places in mode \<^verbatim>\<open>ROUND_HALF_UP\<close> (the
  library's defaults, 20 places). The library's exponent limit is not modelled:
  by default a result whose exponent is above 10000000 overflows to an infinity
  and one whose exponent is below -10000000 underflows to a zero, so the sums,
  products and quotients here are the library's as long as its results stay
  within that limit.
\<close>

datatype BigNumber = NaN | PInf | NInf | NZero | Num rat

text \<open>The field \<^verbatim>\<open>s\<close>: 1, -1, or \<^verbatim>\<open>null\<close> (here 0) for NaN.\<close>

fun sign_s :: "BigNumber \<Rightarrow> int" where
  "sign_s NaN = 0"
| "sign_s PInf = 1"
| "sign_s NInf = - 1"
| "sign_s NZero = - 1"
| "sign_s (Num r) = (if r < 0 then - 1 else 1)"

text \<open>
  \<^verbatim>\<open>P.isPositive = function () { return this.s > 0; }\<close>: a test of the sign
  field, so it holds of the zero of positive sign, and fails for NaN.
\<close>

definition isPositive :: "BigNumber \<Rightarrow> bool" where
  "isPositive x = (sign_s x > 0)"

text \<open>\<^verbatim>\<open>isFinite\<close> (the coefficient is not null) and \<^verbatim>\<open>isZero\<close>.\<close>

fun isFinite :: "BigNumber \<Rightarrow> bool" where
  "isFinite NZero = True"
| "isFinite (Num r) = True"
| "isFinite x = False"

fun isZero :: "BigNumber \<Rightarrow> bool" where
  "isZero NZero = True"
| "isZero (Num r) = (r = 0)"
| "isZero x = False"

fun isInfinite :: "BigNumber \<Rightarrow> bool" where
  "isInfinite PInf = True"
| "isInfinite NInf = True"
| "isInfinite x = False"

text \<open>The magnitude of a finite value, and values built from a sign and a magnitude.\<close>

fun magnitude :: "BigNumber \<Rightarrow> rat" where
  "magnitude (Num r) = \<bar>r\<bar>"
| "magnitude x = 0"

definition signedZero :: "bool \<Rightarrow> BigNumber" where
  "signedZero neg = (if neg then NZero else Num 0)"

definition signedInf :: "bool \<Rightarrow> BigNumber" where
  "signedInf neg = (if neg then NInf else PInf)"

definition signedNum :: "bool \<Rightarrow> rat \<Rightarrow> BigNumber" where
  "signedNum neg m = (if m = 0 then signedZero neg else Num (if neg then - m else m))"

definition negated :: "BigNumber \<Rightarrow> BigNumber" where
  "negated x = (case x of NaN \<Rightarrow> NaN | PInf \<Rightarrow> NInf | NInf \<Rightarrow> PInf
                | NZero \<Rightarrow> Num 0 | Num r \<Rightarrow> signedNum (0 \<le> r) \<bar>r\<bar>)"

text \<open>
  \<^verbatim>\<open>plus\<close>: NaN if an operand is NaN or the operands are infinities of
  opposite sign; an infinity if one operand is; of two zeros the sum is the
  zero of negative sign only if both are; otherwise the exact sum, where a
  sum that cancels is the zero of positive sign.
\<close>

fun plus_bn :: "BigNumber \<Rightarrow> BigNumber \<Rightarrow> BigNumber" where
  "plus_bn NaN y = NaN"
| "plus_bn x NaN = NaN"
| "plus_bn PInf NInf = NaN"
| "plus_bn NInf PInf = NaN"
| "plus_bn PInf y = PInf"
| "plus_bn NInf y = NInf"
| "plus_bn x PInf = PInf"
| "plus_bn x NInf = NInf"
| "plus_bn NZero y = (case y of NZero \<Rightarrow> NZero | _ \<Rightarrow> y)"
| "plus_bn (Num a) NZero = Num a"
| "plus_bn (Num a) (Num b) = Num (a + b)"

text \<open>
  \<^verbatim>\<open>minus\<close>: when the signs differ the library computes \<^verbatim>\<open>x.plus(-y)\<close>;
  when they agree it gives NaN for two infinities, and the zero of positive
  sign for equal operands, which is what adding the negated operand gives.
\<close>

definition minus_bn :: "BigNumber \<Rightarrow> BigNumber \<Rightarrow> BigNumber" where
  "minus_bn x y = plus_bn x (negated y)"

text \<open>
  \<^verbatim>\<open>times\<close>: NaN if an operand is NaN or one is zero and the other infinite;
  otherwise the sign is the product of the signs, and the value is infinite if
  an operand is, zero if an operand is, and the exact product otherwise.
\<close>

definition times_bn :: "BigNumber \<Rightarrow> BigNumber \<Rightarrow> BigNumber" where
  "times_bn x y =
     (if x = NaN \<or> y = NaN then NaN
      else if (isZero x \<and> isInfinite y) \<or> (isInfinite x \<and> isZero y) then NaN
      else let neg = (sign_s x \<noteq> sign_s y) in
        if isInfinite x \<or> isInfinite y then signedInf neg
        else if isZero x \<or> isZero y then signedZero neg
        else signedNum neg (magnitude x * magnitude y))"

definition DECIMAL_PLACES :: nat where
  "DECIMAL_PLACES = 20"

text \<open>\<^verbatim>\<open>ROUND_HALF_UP\<close> of a magnitude: to the nearest, a tie away from zero.\<close>

definition roundHalfUp :: "rat \<Rightarrow> rat" where
  "roundHalfUp m = of_int \<lfloor>m * 10 ^ DECIMAL_PLACES + 1 / 2\<rfloor> / 10 ^ DECIMAL_PLACES"

text \<open>
  \<^verbatim>\<open>div\<close>: NaN if an operand is NaN, both are infinite or both are zero; a
  zero if the dividend is zero or the divisor infinite; an infinity if the
  dividend is infinite or the divisor zero; otherwise the rounded quotient. The
  sign is the product of the signs in every case. No case throws.
\<close>

definition div_bn :: "BigNumber \<Rightarrow> BigNumber \<Rightarrow> BigNumber" where
  "div_bn x y =
     (if x = NaN \<or> y = NaN then NaN
      else if (isInfinite x \<and> isInfinite y) \<or> (isZero x \<and> isZero y) then NaN
      else let neg = (sign_s x \<noteq> sign_s y) in
        if isZero x \<or> isInfinite y then signedZero neg
        else if isInfinite x \<or> isZero y then signedInf neg
        else signedNum neg (roundHalfUp (magnitude x / magnitude y)))"

text \<open>
  The library's \<^verbatim>\<open>compare\<close>: \<^verbatim>\<open>null\<close> if an operand is NaN, else -1, 0
  or 1 by value; the two zeros are equal, and so are two infinities of one sign.
\<close>

fun rank :: "BigNumber \<Rightarrow> int \<times> rat" where
  "rank PInf = (1, 0)"
| "rank NInf = (- 1, 0)"
| "rank (Num r) = (0, r)"
| "rank x = (0, 0)"

definition compare :: "BigNumber \<Rightarrow> BigNumber \<Rightarrow> int option" where
  "compare x y =
     (if x = NaN \<or> y = NaN then None
      else if rank x = rank y then Some 0
      else if fst (rank x) < fst (rank y)
              \<or> (fst (rank x) = fst (rank y) \<and> snd (rank x) < snd (rank y)) then Some (- 1)
      else Some 1)"

definition gt :: "BigNumber \<Rightarrow> BigNumber \<Rightarrow> bool" where
  "gt x y = (case compare x y of None \<Rightarrow> False | Some k \<Rightarrow> k > 0)"

definition gte :: "BigNumber \<Rightarrow> BigNumber \<Rightarrow> bool" where
  "gte x y = (case compare x y of None \<Rightarrow> False | Some k \<Rightarrow> k = 1 \<or> k = 0)"

definition lt :: "BigNumber \<Rightarrow> BigNumber \<Rightarrow> bool" where
  "lt x y = (case compare x y of None \<Rightarrow> False | Some k \<Rightarrow> k < 0)"

text \<open>
  \<^verbatim>\<open>BigNumber.minimum(a, b)\<close>: starts from \<open>a\<close>; NaN if \<open>b\<close> is NaN, else
  \<open>b\<close> if \<^verbatim>\<open>a.gt(b)\<close>, else \<open>a\<close>.
\<close>

definition minimum :: "BigNumber \<Rightarrow> BigNumber \<Rightarrow> BigNumber" where
  "minimum a b = (if b = NaN then NaN else if gt a b then b else a)"

text \<open>
  Modelled from the spec: \<^verbatim>\<open>zero\<close> of \<^verbatim>\<open>helpers/zero\<close>, a file that is
  not among the sources. It is the number zero at which the amounts are
  clamped, \<^verbatim>\<open>new BigNumber(0)\<close>, of positive sign.
\<close>

definition zero :: BigNumber where
  "zero = Num 0"

section \<open>The manage-vault calculations\<close>

definition PAYBACK_ALL_BOUND :: BigNumber where
  "PAYBACK_ALL_BOUND = Num (1 / 100)"

record Vault =
  lockedCollateral :: BigNumber
  debt :: BigNumber
  debtOffset :: BigNumber

record IlkData =
  liquidationRatio :: BigNumber
  ilkDebtAvailable :: BigNumber

record PriceInfo =
  currentCollateralPrice :: BigNumber
  nextCollateralPrice :: BigNumber

record BalanceInfo =
  collateralBalance :: BigNumber
  daiBalance :: BigNumber

record ManageVaultCalculations =
  maxDepositAmount :: BigNumber
  maxDepositAmountUSD :: BigNumber
  maxWithdrawAmountAtCurrentPrice :: BigNumber
  maxWithdrawAmountAtNextPrice :: BigNumber
  maxWithdrawAmount :: BigNumber
  maxWithdrawAmountUSD :: BigNumber
  maxGenerateAmount :: BigNumber
  maxGenerateAmountAtCurrentPrice :: BigNumber
  maxGenerateAmountAtNextPrice :: BigNumber
  maxPaybackAmount :: BigNumber
  daiYieldFromTotalCollateral :: BigNumber
  daiYieldFromTotalCollateralAtNextPrice :: BigNumber
  afterDebt :: BigNumber
  afterLiquidationPrice :: BigNumber
  afterCollateralizationRatio :: BigNumber
  afterCollateralizationRatioAtNextPrice :: BigNumber
  afterFreeCollateral :: BigNumber
  afterFreeCollateralAtNextPrice :: BigNumber
  afterBackingCollateral :: BigNumber
  afterBackingCollateralAtNextPrice :: BigNumber
  afterLockedCollateral :: BigNumber
  shouldPaybackAll :: bool

text \<open>
  The part of \<^verbatim>\<open>ManageVaultState\<close> that the calculations read and write.
  An amount the user has not entered is \<^verbatim>\<open>undefined\<close>, here \<open>None\<close>. A
  BigNumber is an object, so in a condition every amount that is set is truthy,
  a zero too.
\<close>

record ManageVaultState = ManageVaultCalculations +
  depositAmount :: "BigNumber option"
  withdrawAmount :: "BigNumber option"
  generateAmount :: "BigNumber option"
  paybackAmount :: "BigNumber option"
  balanceInfo :: BalanceInfo
  ilkData :: IlkData
  priceInfo :: PriceInfo
  vault :: Vault

definition determineShouldPaybackAll ::
  "BigNumber option \<Rightarrow> BigNumber \<Rightarrow> BigNumber \<Rightarrow> BigNumber \<Rightarrow> bool" where
  "determineShouldPaybackAll payback d offset dai =
     (isPositive d \<and> gte dai (plus_bn d offset) \<and>
      (case payback of None \<Rightarrow> False
       | Some p \<Rightarrow> gte (plus_bn p PAYBACK_ALL_BOUND) d \<and> \<not> gt p d))"

definition calculateAfterLockedCollateral ::
  "BigNumber \<Rightarrow> BigNumber option \<Rightarrow> BigNumber option \<Rightarrow> BigNumber" where
  "calculateAfterLockedCollateral locked deposit withdraw =
     (let amount = (case deposit of Some dep \<Rightarrow> plus_bn locked dep
                    | None \<Rightarrow> (case withdraw of Some w \<Rightarrow> minus_bn locked w
                               | None \<Rightarrow> locked))
      in if gte amount zero then amount else zero)"

definition calculateAfterDebt ::
  "bool \<Rightarrow> BigNumber option \<Rightarrow> BigNumber option \<Rightarrow> BigNumber \<Rightarrow> BigNumber" where
  "calculateAfterDebt paybackAll generate payback d =
     (if paybackAll then zero
      else let amount = (case generate of Some g \<Rightarrow> plus_bn d g
                         | None \<Rightarrow> (case payback of Some p \<Rightarrow> minus_bn d p
                                    | None \<Rightarrow> d))
           in if gte amount zero then amount else zero)"

definition calculateAfterBackingCollateral ::
  "BigNumber \<Rightarrow> BigNumber \<Rightarrow> BigNumber \<Rightarrow> BigNumber" where
  "calculateAfterBackingCollateral aDebt ratio price =
     (if \<not> isPositive aDebt then zero
      else div_bn (times_bn aDebt ratio) price)"

definition calculateAfterFreeCollateral :: "BigNumber \<Rightarrow> BigNumber \<Rightarrow> BigNumber" where
  "calculateAfterFreeCollateral locked backing =
     (let amount = minus_bn locked backing
      in if gte amount zero then amount else zero)"

text \<open>
  \<^verbatim>\<open>calculateMaxWithdrawAmount\<close> calls \<^verbatim>\<open>calculateAfterDebt\<close> without a
  \<^verbatim>\<open>generateAmount\<close>.
\<close>

definition calculateMaxWithdrawAmount ::
  "BigNumber option \<Rightarrow> bool \<Rightarrow> BigNumber \<Rightarrow> BigNumber \<Rightarrow> BigNumber \<Rightarrow> BigNumber
     \<Rightarrow> BigNumber \<Rightarrow> BigNumber" where
  "calculateMaxWithdrawAmount payback paybackAll locked d offset ratio price =
     (let aDebt = calculateAfterDebt paybackAll None payback d;
          afterDebtWithOffset = (if isPositive aDebt then plus_bn aDebt offset else aDebt);
          backingCollateral = calculateAfterBackingCollateral afterDebtWithOffset ratio price
      in calculateAfterFreeCollateral locked backingCollateral)"

text \<open>\<^verbatim>\<open>paybackAmount || zero\<close>: the amount if it is set, else zero.\<close>

definition orZero :: "BigNumber option \<Rightarrow> BigNumber" where
  "orZero a = (case a of Some x \<Rightarrow> x | None \<Rightarrow> zero)"

definition calculateDaiYieldFromCollateral ::
  "BigNumber \<Rightarrow> BigNumber \<Rightarrow> BigNumber option \<Rightarrow> BigNumber option \<Rightarrow> BigNumber
     \<Rightarrow> BigNumber \<Rightarrow> BigNumber \<Rightarrow> BigNumber" where
  "calculateDaiYieldFromCollateral d ratio generate payback price collateral available =
     (let daiYield = minus_bn (div_bn (times_bn collateral price) ratio) d
      in if \<not> isPositive daiYield then zero
         else if gt daiYield available then
           (if isPositive available then
              (let amount = minus_bn (plus_bn available (orZero payback)) (orZero generate)
               in if gte amount zero then amount else zero)
            else zero)
         else daiYield)"

text \<open>
  \<^verbatim>\<open>calculateMaxGenerateAmount\<close> takes a \<^verbatim>\<open>generateAmount\<close>, which its only
  caller never passes; it calls \<^verbatim>\<open>calculateAfterLockedCollateral\<close> without a
  \<^verbatim>\<open>withdrawAmount\<close> and \<^verbatim>\<open>calculateDaiYieldFromCollateral\<close> without a
  \<^verbatim>\<open>paybackAmount\<close>.
\<close>

definition calculateMaxGenerateAmount ::
  "BigNumber option \<Rightarrow> BigNumber option \<Rightarrow> BigNumber \<Rightarrow> BigNumber \<Rightarrow> BigNumber
     \<Rightarrow> BigNumber \<Rightarrow> BigNumber \<Rightarrow> BigNumber \<Rightarrow> BigNumber" where
  "calculateMaxGenerateAmount deposit generate d offset locked ratio price available =
     (let aLocked = calculateAfterLockedCollateral locked deposit None
      in calculateDaiYieldFromCollateral (plus_bn d offset) ratio generate None
           price aLocked available)"

definition applyManageVaultCalculations :: "ManageVaultState \<Rightarrow> ManageVaultState" where
  "applyManageVaultCalculations state =
     (let collateralBalance' = collateralBalance (balanceInfo state);
          daiBalance' = daiBalance (balanceInfo state);
          ratio = liquidationRatio (ilkData state);
          available = ilkDebtAvailable (ilkData state);
          currentPrice = currentCollateralPrice (priceInfo state);
          nextPrice = nextCollateralPrice (priceInfo state);
          locked = lockedCollateral (vault state);
          d = debt (vault state);
          offset = debtOffset (vault state);
          paybackAll = determineShouldPaybackAll (paybackAmount state) d offset daiBalance';
          aLocked = calculateAfterLockedCollateral locked (depositAmount state)
                      (withdrawAmount state);
          aLockedUSD = times_bn aLocked currentPrice;
          aLockedUSDAtNextPrice = times_bn aLocked nextPrice;
          aDebt = calculateAfterDebt paybackAll (generateAmount state) (paybackAmount state) d;
          aBacking = calculateAfterBackingCollateral aDebt ratio currentPrice;
          aBackingAtNextPrice = calculateAfterBackingCollateral aDebt ratio nextPrice;
          aFree = calculateAfterFreeCollateral aLocked aBacking;
          aFreeAtNextPrice = calculateAfterFreeCollateral aLocked aBackingAtNextPrice;
          maxWithdrawCurrent = calculateMaxWithdrawAmount (paybackAmount state) paybackAll
                                 locked d offset ratio currentPrice;
          maxWithdrawNext = calculateMaxWithdrawAmount (paybackAmount state) paybackAll
                              locked d offset ratio nextPrice;
          maxWithdraw = minimum maxWithdrawCurrent maxWithdrawNext;
          maxWithdrawUSD = times_bn maxWithdraw currentPrice;
          maxDeposit = collateralBalance';
          maxDepositUSD = times_bn collateralBalance' currentPrice;
          daiYield = calculateDaiYieldFromCollateral aDebt ratio (generateAmount state)
                       (paybackAmount state) currentPrice aLocked available;
          daiYieldAtNextPrice = calculateDaiYieldFromCollateral aDebt ratio
                                  (generateAmount state) (paybackAmount state) nextPrice
                                  aLocked available;
          maxGenerateCurrent = calculateMaxGenerateAmount (depositAmount state) None d offset
                                 locked ratio currentPrice available;
          maxGenerateNext = calculateMaxGenerateAmount (depositAmount state) None d offset
                              locked ratio nextPrice available;
          maxGenerate = minimum maxGenerateCurrent maxGenerateNext;
          maxPayback = (if lt daiBalance' d then daiBalance' else d);
          aCollateralizationRatio =
            (if isPositive aLockedUSD \<and> isPositive aDebt then div_bn aLockedUSD aDebt
             else zero);
          aCollateralizationRatioAtNextPrice =
            (if isPositive aLockedUSDAtNextPrice \<and> isPositive aDebt
             then div_bn aLockedUSDAtNextPrice aDebt else zero);
          aLiquidationPrice =
            (if isPositive aDebt \<and> isPositive aLocked
             then div_bn (times_bn aDebt ratio) aLocked else zero)
      in state\<lparr>
           maxDepositAmount := maxDeposit,
           maxDepositAmountUSD := maxDepositUSD,
           maxWithdrawAmountAtCurrentPrice := maxWithdrawCurrent,
           maxWithdrawAmountAtNextPrice := maxWithdrawNext,
           maxWithdrawAmount := maxWithdraw,
           maxWithdrawAmountUSD := maxWithdrawUSD,
           maxGenerateAmount := maxGenerate,
           maxGenerateAmountAtCurrentPrice := maxGenerateCurrent,
           maxGenerateAmountAtNextPrice := maxGenerateNext,
           afterCollateralizationRatio := aCollateralizationRatio,
           afterCollateralizationRatioAtNextPrice := aCollateralizationRatioAtNextPrice,
           afterLiquidationPrice := aLiquidationPrice,
           afterFreeCollateral := aFree,
           afterFreeCollateralAtNextPrice := aFreeAtNextPrice,
           afterLockedCollateral := aLocked,
           afterBackingCollateral := aBacking,
           afterBackingCollateralAtNextPrice := aBackingAtNextPrice,
           afterDebt := aDebt,
           maxPaybackAmount := maxPayback,
           daiYieldFromTotalCollateral := daiYield,
           daiYieldFromTotalCollateralAtNextPrice := daiYieldAtNextPrice,
           shouldPaybackAll := paybackAll\<rparr>)"

text \<open>
  \<^verbatim>\<open>defaultManageVaultCalculations\<close>, and a state that holds it beside the
  given inputs: the state as it is before the calculations are applied.
\<close>

definition defaultManageVaultCalculations :: ManageVaultCalculations where
  "defaultManageVaultCalculations = \<lparr>
     maxDepositAmount = zero,
     maxDepositAmountUSD = zero,
     maxWithdrawAmountAtCurrentPrice = zero,
     maxWithdrawAmountAtNextPrice = zero,
     maxWithdrawAmount = zero,
     maxWithdrawAmountUSD = zero,
     maxGenerateAmount = zero,
     maxGenerateAmountAtCurrentPrice = zero,
     maxGenerateAmountAtNextPrice = zero,
     maxPaybackAmount = zero,
     daiYieldFromTotalCollateral = zero,
     daiYieldFromTotalCollateralAtNextPrice = zero,
     afterDebt = zero,
     afterLiquidationPrice = zero,
     afterCollateralizationRatio = zero,
     afterCollateralizationRatioAtNextPrice = zero,
     afterFreeCollateral = zero,
     afterFreeCollateralAtNextPrice = zero,
     afterBackingCollateral = zero,
     afterBackingCollateralAtNextPrice = zero,
     afterLockedCollateral = zero,
     shouldPaybackAll = False\<rparr>"

definition stateOf ::
  "BigNumber option \<Rightarrow> BigNumber option \<Rightarrow> BigNumber option \<Rightarrow> BigNumber option
     \<Rightarrow> BalanceInfo \<Rightarrow> IlkData \<Rightarrow> PriceInfo \<Rightarrow> Vault \<Rightarrow> ManageVaultState" where
  "stateOf deposit withdraw generate payback balances ilk prices v =
     ManageVaultCalculations.extend defaultManageVaultCalculations
       (ManageVaultState.fields deposit withdraw generate payback balances ilk prices v)"

section \<open>Errors at run time\<close>





section \<open>The transaction manager\<close>

text \<open>
  A transaction of the manager. \<^verbatim>\<open>lastChange\<close> is a \<^verbatim>\<open>Date\<close>, here its
  time value in milliseconds. The status of a blockchain transaction is a
  \<^verbatim>\<open>TxStatus\<close> of the transactions library, the status of an on-ramp order a
  string. \<^verbatim>\<open>raw\<close> is the library's transaction state or the order, whose
  type stays a parameter, as does the library's \<^verbatim>\<open>isDone\<close> on it.
\<close>

datatype TxStatus =
  WaitingForApproval | CancelledByTheUser | Propagating | WaitingForConfirmation
  | Success | Error | Failure

datatype TxKind = blockchain | wyre | moonpay | latamex

datatype Status = Tx TxStatus | Onramp string

record 'raw TxMgrTransaction =
  tx_id :: string
  lastChange :: int
  kind :: TxKind
  status :: Status
  raw :: 'raw

record 'raw NotificationTransaction =
  tx :: "'raw TxMgrTransaction"
  withDescription :: bool

record 'raw TransactionManager =
  pendingTransactions :: "'raw TxMgrTransaction list"
  recentTransactions :: "'raw TxMgrTransaction list"
  notificationTransaction :: "'raw NotificationTransaction option"

definition isTxDone :: "('raw \<Rightarrow> bool) \<Rightarrow> 'raw TxMgrTransaction \<Rightarrow> bool" where
  "isTxDone isDone tr =
     ((kind tr = blockchain \<and> isDone (raw tr)) \<or>
      ((kind tr = wyre \<or> kind tr = moonpay \<or> kind tr = latamex) \<and>
       status tr \<in> set [Onramp ''complete'', Onramp ''failed'']))"

text \<open>\<^verbatim>\<open>throw new Error('Should not get here!')\<close>\<close>

datatype error = ShouldNotGetHere

definition compareTransactions ::
  "('raw \<Rightarrow> bool) \<Rightarrow> 'raw TxMgrTransaction \<Rightarrow> 'raw TxMgrTransaction \<Rightarrow> error + int" where
  "compareTransactions isDone t1 t2 =
     (let t1Done = isTxDone isDone t1;
          t2Done = isTxDone isDone t2
      in if t1Done = t2Done then Inr (lastChange t2 - lastChange t1)
         else if t1Done \<and> \<not> t2Done then Inr 1
         else if \<not> t1Done \<and> t2Done then Inr (- 1)
         else Inl ShouldNotGetHere)"

text \<open>
  \<^verbatim>\<open>Array.prototype.sort\<close> with a comparison function: a stable sort, modelled
  as an insertion sort. An element goes before the first one it does not
  compare greater than. An exception of the comparison function ends the sort.
\<close>

fun insertSorted ::
  "('a \<Rightarrow> 'a \<Rightarrow> error + int) \<Rightarrow> 'a \<Rightarrow> 'a list \<Rightarrow> error + 'a list" where
  "insertSorted cmp x [] = Inr [x]"
| "insertSorted cmp x (y # ys) =
     (case cmp x y of
        Inl e \<Rightarrow> Inl e
      | Inr c \<Rightarrow>
          if c \<le> 0 then Inr (x # y # ys)
          else (case insertSorted cmp x ys of
                  Inl e \<Rightarrow> Inl e
                | Inr zs \<Rightarrow> Inr (y # zs)))"

fun sortBy :: "('a \<Rightarrow> 'a \<Rightarrow> error + int) \<Rightarrow> 'a list \<Rightarrow> error + 'a list" where
  "sortBy cmp [] = Inr []"
| "sortBy cmp (x # xs) =
     (case sortBy cmp xs of
        Inl e \<Rightarrow> Inl e
      | Inr ys \<Rightarrow> insertSorted cmp x ys)"

text \<open>The cases of the \<^verbatim>\<open>switch\<close> on the status in \<^verbatim>\<open>filterTransactions\<close>.\<close>

datatype StatusCase = SignCase | SubmittedCase | SuccessCase | ErrorCase | DefaultCase

definition statusCase :: "Status \<Rightarrow> StatusCase" where
  "statusCase st =
     (if st = Onramp ''initialized'' \<or> st = Tx WaitingForApproval then SignCase
      else if st = Onramp ''pending'' \<or> st = Tx Propagating \<or> st = Tx WaitingForConfirmation
        then SubmittedCase
      else if st = Onramp ''accepted'' \<or> st = Onramp ''completed'' \<or> st = Onramp ''complete''
              \<or> st = Tx Success
        then SuccessCase
      else if st = Onramp ''rejected'' \<or> st = Onramp ''expired'' \<or> st = Onramp ''incomplete''
              \<or> st = Onramp ''failed'' \<or> st = Tx CancelledByTheUser \<or> st = Tx Error
              \<or> st = Tx Failure
        then ErrorCase
      else DefaultCase)"

text \<open>
  The arrays that the \<^verbatim>\<open>forEach\<close> fills by \<^verbatim>\<open>push\<close>: each holds, in the
  order of the input, the transactions of its cases.
\<close>

definition withCase :: "StatusCase list \<Rightarrow> 'raw TxMgrTransaction list \<Rightarrow> 'raw TxMgrTransaction list" where
  "withCase cs transactions = filter (\<lambda>t. statusCase (status t) \<in> set cs) transactions"

text \<open>
  \<^verbatim>\<open>moment(new Date()) < moment(tx.lastChange).add(10, 'seconds')\<close> and its
  counterpart with \<^verbatim>\<open>>\<close>, at the time \<open>now\<close> in milliseconds. The clock is
  read once for an evaluation.
\<close>

definition withinTenSeconds :: "int \<Rightarrow> 'raw TxMgrTransaction \<Rightarrow> bool" where
  "withinTenSeconds now t = (now < lastChange t + 10000)"

definition pastTenSeconds :: "int \<Rightarrow> 'raw TxMgrTransaction \<Rightarrow> bool" where
  "pastTenSeconds now t = (now > lastChange t + 10000)"

text \<open>
  The two \<^verbatim>\<open>for\<close> loops marked "time based (10sec and disappear)", over the
  error and over the success transactions: the loop's body, applied to each
  transaction in turn, on the notification chosen so far.
\<close>

fun timeBased ::
  "int \<Rightarrow> 'raw TxMgrTransaction list \<Rightarrow> 'raw NotificationTransaction option
     \<Rightarrow> 'raw NotificationTransaction option" where
  "timeBased now [] n = n"
| "timeBased now (t # ts) n =
     timeBased now ts
       (if n = None \<and> withinTenSeconds now t
          then Some \<lparr>tx = t, withDescription = True\<rparr>
        else if n \<noteq> None \<and> pastTenSeconds now t then None
        else n)"

definition filterTransactions ::
  "int \<Rightarrow> 'raw TxMgrTransaction list \<Rightarrow> 'raw TransactionManager" where
  "filterTransactions now transactions =
     (let pending = withCase [SignCase, SubmittedCase] transactions;
          recent = withCase [SuccessCase, ErrorCase] transactions;
          signTransactions = withCase [SignCase] transactions;
          errorTransactions = withCase [ErrorCase] transactions;
          successTransactions = withCase [SuccessCase] transactions;
          submittedTransactions = withCase [SubmittedCase] transactions;
          n1 = (case signTransactions of
                  t # ts \<Rightarrow> Some \<lparr>tx = t, withDescription = True\<rparr>
                | [] \<Rightarrow> None);
          n2 = (if n1 = None \<and> errorTransactions \<noteq> [] then timeBased now errorTransactions n1
                else n1);
          n3 = (if n2 = None \<and> successTransactions \<noteq> []
                  then timeBased now successTransactions n2
                else n2);
          n4 = (case submittedTransactions of
                  t # ts \<Rightarrow>
                    if n3 = None
                      then Some \<lparr>tx = t, withDescription = withinTenSeconds now t\<rparr>
                    else n3
                | [] \<Rightarrow> n3)
      in \<lparr>pendingTransactions = pending, recentTransactions = recent,
          notificationTransaction = n4\<rparr>)"

text \<open>
  The function that \<^verbatim>\<open>createTransactionManager\<close> maps over its streams, on
  each new value and each second: \<open>allTransactions\<close> is the list of the
  blockchain transactions followed by the wyre, moonpay and latamex orders,
  each made a \<^verbatim>\<open>TxMgrTransaction\<close>; it is sorted and then filtered.
\<close>

definition transactionManager ::
  "('raw \<Rightarrow> bool) \<Rightarrow> int \<Rightarrow> 'raw TxMgrTransaction list \<Rightarrow> error + 'raw TransactionManager" where
  "transactionManager isDone now allTransactions =
     (case sortBy (compareTransactions isDone) allTransactions of
        Inl e \<Rightarrow> Inl e
      | Inr sortedTransactions \<Rightarrow> Inr (filterTransactions now sortedTransactions))"

section \<open>The claims in the words of the specification\<close>

text \<open>"Clamped at zero": the amount if it is at least zero, else zero.\<close>

definition clampedAtZero :: "BigNumber \<Rightarrow> BigNumber" where
  "clampedAtZero amount = (if gte amount zero then amount else zero)"

text \<open>
  The debt after the payback alone, which \<^verbatim>\<open>calculateMaxWithdrawAmount\<close> starts
  from, and the bound on a withdrawal as the specification states it: the free
  collateral left after backing that debt plus \<^verbatim>\<open>debtOffset\<close>.
\<close>

definition afterPaybackDebt :: "ManageVaultState \<Rightarrow> BigNumber" where
  "afterPaybackDebt s =
     calculateAfterDebt
       (determineShouldPaybackAll (paybackAmount s) (debt (vault s)) (debtOffset (vault s))
          (daiBalance (balanceInfo s)))
       None (paybackAmount s) (debt (vault s))"

definition withdrawBoundAsStated :: "ManageVaultState \<Rightarrow> BigNumber \<Rightarrow> BigNumber" where
  "withdrawBoundAsStated s price =
     calculateAfterFreeCollateral (lockedCollateral (vault s))
       (calculateAfterBackingCollateral (plus_bn (afterPaybackDebt s) (debtOffset (vault s)))
          (liquidationRatio (ilkData s)) price)"

section \<open>Example states and transactions\<close>

text \<open>
  A vault of 10 units of collateral and a debt of 6, into which 5 units are
  deposited; the liquidation ratio is 1.5, the price 2 now and 3 next.
\<close>

definition collateralizedState :: ManageVaultState where
  "collateralizedState =
     stateOf (Some (Num 5)) None None None
       \<lparr>collateralBalance = Num 20, daiBalance = Num 0\<rparr>
       \<lparr>liquidationRatio = Num (3 / 2), ilkDebtAvailable = Num 1000\<rparr>
       \<lparr>currentCollateralPrice = Num 2, nextCollateralPrice = Num 3\<rparr>
       \<lparr>lockedCollateral = Num 10, debt = Num 6, debtOffset = Num 0\<rparr>"

text \<open>A vault of 200 units and a debt of 100, at a current price of -1.\<close>

definition negativePriceState :: ManageVaultState where
  "negativePriceState =
     stateOf None None None None
       \<lparr>collateralBalance = Num 0, daiBalance = Num 0\<rparr>
       \<lparr>liquidationRatio = Num (3 / 2), ilkDebtAvailable = Num 1000\<rparr>
       \<lparr>currentCollateralPrice = Num (- 1), nextCollateralPrice = Num 1\<rparr>
       \<lparr>lockedCollateral = Num 200, debt = Num 100, debtOffset = Num 0\<rparr>"


text \<open>
  A vault of 200 units and a debt of 100 with an offset of 1, of which 40 are
  paid back and 20 units withdrawn, at the prices 2 and 1.
\<close>

definition paybackState :: ManageVaultState where
  "paybackState =
     stateOf None (Some (Num 20)) None (Some (Num 40))
       \<lparr>collateralBalance = Num 5, daiBalance = Num 500\<rparr>
       \<lparr>liquidationRatio = Num (3 / 2), ilkDebtAvailable = Num 1000\<rparr>
       \<lparr>currentCollateralPrice = Num 2, nextCollateralPrice = Num 1\<rparr>
       \<lparr>lockedCollateral = Num 200, debt = Num 100, debtOffset = Num 1\<rparr>"

text \<open>
  A vault of 10 units without debt, with an offset of 1; and a vault of 200
  units and a debt of 100 with an offset of 1, all of which is paid back.
\<close>

definition noDebtState :: ManageVaultState where
  "noDebtState =
     stateOf None None None None
       \<lparr>collateralBalance = Num 0, daiBalance = Num 0\<rparr>
       \<lparr>liquidationRatio = Num (3 / 2), ilkDebtAvailable = Num 1000\<rparr>
       \<lparr>currentCollateralPrice = Num 1, nextCollateralPrice = Num 1\<rparr>
       \<lparr>lockedCollateral = Num 10, debt = Num 0, debtOffset = Num 1\<rparr>"

definition paybackAllState :: ManageVaultState where
  "paybackAllState =
     stateOf None None None (Some (Num 100))
       \<lparr>collateralBalance = Num 0, daiBalance = Num 500\<rparr>
       \<lparr>liquidationRatio = Num (3 / 2), ilkDebtAvailable = Num 1000\<rparr>
       \<lparr>currentCollateralPrice = Num 2, nextCollateralPrice = Num 2\<rparr>
       \<lparr>lockedCollateral = Num 200, debt = Num 100, debtOffset = Num 1\<rparr>"


text \<open>
  A state with all four amounts set: deposit 5 and withdraw 3, generate 10 and
  pay back 4, on a vault of 10 units and a debt of 100.
\<close>

definition bothDirectionsState :: ManageVaultState where
  "bothDirectionsState =
     stateOf (Some (Num 5)) (Some (Num 3)) (Some (Num 10)) (Some (Num 4))
       \<lparr>collateralBalance = Num 20, daiBalance = Num 50\<rparr>
       \<lparr>liquidationRatio = Num (3 / 2), ilkDebtAvailable = Num 1000\<rparr>
       \<lparr>currentCollateralPrice = Num 100, nextCollateralPrice = Num 100\<rparr>
       \<lparr>lockedCollateral = Num 10, debt = Num 100, debtOffset = Num 0\<rparr>"

text \<open>A vault without debt, and a payback amount of 0 entered.\<close>

definition zeroDebtPaybackState :: ManageVaultState where
  "zeroDebtPaybackState =
     stateOf None None None (Some (Num 0))
       \<lparr>collateralBalance = Num 0, daiBalance = Num 0\<rparr>
       \<lparr>liquidationRatio = Num (3 / 2), ilkDebtAvailable = Num 1000\<rparr>
       \<lparr>currentCollateralPrice = Num 1, nextCollateralPrice = Num 1\<rparr>
       \<lparr>lockedCollateral = Num 200, debt = Num 0, debtOffset = Num 0\<rparr>"

text \<open>
  A vault of 10 units at the price 100 and a debt of 100, of which 50 are paid
  back, when no debt is available under the ceiling.
\<close>

definition ceilingExhaustedState :: ManageVaultState where
  "ceilingExhaustedState =
     stateOf None None None (Some (Num 50))
       \<lparr>collateralBalance = Num 0, daiBalance = Num 50\<rparr>
       \<lparr>liquidationRatio = Num (3 / 2), ilkDebtAvailable = Num 0\<rparr>
       \<lparr>currentCollateralPrice = Num 100, nextCollateralPrice = Num 100\<rparr>
       \<lparr>lockedCollateral = Num 10, debt = Num 100, debtOffset = Num 0\<rparr>"

text \<open>A vault of 50 units and a debt of 100, from which all 50 units are withdrawn.\<close>

definition withdrawAllState :: ManageVaultState where
  "withdrawAllState =
     stateOf None (Some (Num 50)) None None
       \<lparr>collateralBalance = Num 0, daiBalance = Num 0\<rparr>
       \<lparr>liquidationRatio = Num (3 / 2), ilkDebtAvailable = Num 1000\<rparr>
       \<lparr>currentCollateralPrice = Num 1, nextCollateralPrice = Num 1\<rparr>
       \<lparr>lockedCollateral = Num 50, debt = Num 100, debtOffset = Num 0\<rparr>"

text \<open>
  The specification's examples: a vault of 200 units and a debt of 100 at the
  price 1, and a vault of 10 units without debt into which 5 are deposited.
\<close>

definition liquidationPriceExample :: ManageVaultState where
  "liquidationPriceExample =
     stateOf None None None None
       \<lparr>collateralBalance = Num 0, daiBalance = Num 0\<rparr>
       \<lparr>liquidationRatio = Num (3 / 2), ilkDebtAvailable = Num 1000\<rparr>
       \<lparr>currentCollateralPrice = Num 1, nextCollateralPrice = Num 1\<rparr>
       \<lparr>lockedCollateral = Num 200, debt = Num 100, debtOffset = Num 0\<rparr>"

definition depositExample :: ManageVaultState where
  "depositExample =
     stateOf (Some (Num 5)) None None None
       \<lparr>collateralBalance = Num 5, daiBalance = Num 0\<rparr>
       \<lparr>liquidationRatio = Num (3 / 2), ilkDebtAvailable = Num 1000\<rparr>
       \<lparr>currentCollateralPrice = Num 2, nextCollateralPrice = Num 2\<rparr>
       \<lparr>lockedCollateral = Num 10, debt = Num 0, debtOffset = Num 0\<rparr>"

text \<open>
  Two failed blockchain transactions, the one changed 5 seconds and the other
  20 seconds before the time 100000, and one that is propagating. Of the raw
  state of a transaction only its status is kept here.
\<close>

definition recentFailure :: "TxStatus TxMgrTransaction" where
  "recentFailure =
     \<lparr>tx_id = ''1'', lastChange = 95000, kind = blockchain, status = Tx Failure,
      raw = Failure\<rparr>"

definition expiredFailure :: "TxStatus TxMgrTransaction" where
  "expiredFailure =
     \<lparr>tx_id = ''2'', lastChange = 80000, kind = blockchain, status = Tx Failure,
      raw = Failure\<rparr>"

definition propagating :: "TxStatus TxMgrTransaction" where
  "propagating =
     \<lparr>tx_id = ''3'', lastChange = 99000, kind = blockchain, status = Tx Propagating,
      raw = Propagating\<rparr>"

section \<open>Facts about the numbers\<close>

lemma gte_zero_zero: "gte zero zero"
  by (simp add: gte_def compare_def zero_def)

lemma gte_Num_zero: "gte (Num r) zero = (0 \<le> r)"
  by (auto simp: gte_def compare_def zero_def)

lemma finite_gt_zero: "isFinite x \<Longrightarrow> gt x zero \<Longrightarrow> \<exists>r. x = Num r \<and> 0 < r"
  by (cases x) (auto simp: gt_def compare_def zero_def split: if_splits)

lemma isPositive_cases: "isPositive x \<Longrightarrow> x = PInf \<or> (\<exists>r. x = Num r \<and> 0 \<le> r)"
  by (cases x) (auto simp: isPositive_def split: if_splits)

lemma gt_zero_isPositive: "gt x zero \<Longrightarrow> isPositive x"
  by (cases x) (auto simp: gt_def compare_def zero_def isPositive_def split: if_splits)

lemma roundHalfUp_nonneg: "0 \<le> m \<Longrightarrow> 0 \<le> roundHalfUp m"
  by (simp add: roundHalfUp_def)

lemma backing_nonneg:
  assumes "isPositive a" "0 < l" "0 < p"
  shows "gte (div_bn (times_bn a (Num l)) (Num p)) zero"
proof -
  from assms(1) consider "a = PInf" | r where "a = Num r" "0 \<le> r"
    using isPositive_cases by blast
  then show ?thesis
  proof cases
    case 1
    then show ?thesis using assms(2,3)
      by (simp add: times_bn_def div_bn_def signedInf_def gte_def compare_def zero_def)
  next
    case 2
    have "0 \<le> roundHalfUp (r * l / p)" using 2 assms(2,3) by (simp add: roundHalfUp_nonneg)
    moreover have "\<not> r * l < 0" using 2 assms(2) by (simp add: not_less)
    ultimately show ?thesis using 2 assms(2,3)
      by (cases "r = 0")
         (simp_all add: times_bn_def div_bn_def signedNum_def signedZero_def gte_Num_zero
            gte_def compare_def zero_def abs_mult)
  qed
qed

section \<open>The fields of the calculated state\<close>

lemma apply_shouldPaybackAll:
  "shouldPaybackAll (applyManageVaultCalculations s) =
     determineShouldPaybackAll (paybackAmount s) (debt (vault s)) (debtOffset (vault s))
       (daiBalance (balanceInfo s))"
  by (simp add: applyManageVaultCalculations_def Let_def)

lemma apply_afterLockedCollateral:
  "afterLockedCollateral (applyManageVaultCalculations s) =
     calculateAfterLockedCollateral (lockedCollateral (vault s)) (depositAmount s)
       (withdrawAmount s)"
  by (simp add: applyManageVaultCalculations_def Let_def)

lemma apply_afterDebt:
  "afterDebt (applyManageVaultCalculations s) =
     calculateAfterDebt (shouldPaybackAll (applyManageVaultCalculations s))
       (generateAmount s) (paybackAmount s) (debt (vault s))"
  by (simp add: applyManageVaultCalculations_def Let_def)

lemma apply_afterBackingCollateral:
  "afterBackingCollateral (applyManageVaultCalculations s) =
     calculateAfterBackingCollateral (afterDebt (applyManageVaultCalculations s))
       (liquidationRatio (ilkData s)) (currentCollateralPrice (priceInfo s))"
  by (simp add: applyManageVaultCalculations_def Let_def)

lemma apply_afterBackingCollateralAtNextPrice:
  "afterBackingCollateralAtNextPrice (applyManageVaultCalculations s) =
     calculateAfterBackingCollateral (afterDebt (applyManageVaultCalculations s))
       (liquidationRatio (ilkData s)) (nextCollateralPrice (priceInfo s))"
  by (simp add: applyManageVaultCalculations_def Let_def)

lemma apply_afterFreeCollateral:
  "afterFreeCollateral (applyManageVaultCalculations s) =
     calculateAfterFreeCollateral (afterLockedCollateral (applyManageVaultCalculations s))
       (afterBackingCollateral (applyManageVaultCalculations s))"
  by (simp add: applyManageVaultCalculations_def Let_def)

lemma apply_afterFreeCollateralAtNextPrice:
  "afterFreeCollateralAtNextPrice (applyManageVaultCalculations s) =
     calculateAfterFreeCollateral (afterLockedCollateral (applyManageVaultCalculations s))
       (afterBackingCollateralAtNextPrice (applyManageVaultCalculations s))"
  by (simp add: applyManageVaultCalculations_def Let_def)

section \<open>Amounts after the action are not negative\<close>

lemma calculateAfterLockedCollateral_nonneg:
  "gte (calculateAfterLockedCollateral locked deposit withdraw) zero"
  by (simp add: calculateAfterLockedCollateral_def Let_def gte_zero_zero)

lemma calculateAfterDebt_nonneg: "gte (calculateAfterDebt paybackAll generate payback d) zero"
  by (simp add: calculateAfterDebt_def Let_def gte_zero_zero)

lemma calculateAfterFreeCollateral_nonneg:
  "gte (calculateAfterFreeCollateral locked backing) zero"
  by (simp add: calculateAfterFreeCollateral_def Let_def gte_zero_zero)

lemma calculateAfterBackingCollateral_nonneg:
  assumes "isFinite ratio" "gt ratio zero" "isFinite price" "gt price zero"
  shows "gte (calculateAfterBackingCollateral aDebt ratio price) zero"
proof -
  obtain l p where "ratio = Num l" "0 < l" "price = Num p" "0 < p"
    using assms finite_gt_zero by blast
  then show ?thesis
    by (simp add: calculateAfterBackingCollateral_def gte_zero_zero backing_nonneg)
qed

text \<open>
  Claim C1, as the code has it. For every input state the locked collateral,
  the debt and the free collateral (at the current and at the next price) after
  the action are at least zero. The backing collateral is not clamped: it is at
  least zero at the current (next) price whenever the liquidation ratio and the
  current (next) price are finite and greater than zero.
\<close>

theorem after_amounts_nonnegative:
  "gte (afterLockedCollateral (applyManageVaultCalculations s)) zero \<and>
   gte (afterDebt (applyManageVaultCalculations s)) zero \<and>
   gte (afterFreeCollateral (applyManageVaultCalculations s)) zero \<and>
   gte (afterFreeCollateralAtNextPrice (applyManageVaultCalculations s)) zero \<and>
   (isFinite (liquidationRatio (ilkData s)) \<and> gt (liquidationRatio (ilkData s)) zero \<and>
    isFinite (currentCollateralPrice (priceInfo s)) \<and>
    gt (currentCollateralPrice (priceInfo s)) zero
      \<longrightarrow> gte (afterBackingCollateral (applyManageVaultCalculations s)) zero) \<and>
   (isFinite (liquidationRatio (ilkData s)) \<and> gt (liquidationRatio (ilkData s)) zero \<and>
    isFinite (nextCollateralPrice (priceInfo s)) \<and>
    gt (nextCollateralPrice (priceInfo s)) zero
      \<longrightarrow> gte (afterBackingCollateralAtNextPrice (applyManageVaultCalculations s)) zero)"
  by (simp add: apply_afterLockedCollateral apply_afterDebt apply_afterFreeCollateral
      apply_afterFreeCollateralAtNextPrice apply_afterBackingCollateral
      apply_afterBackingCollateralAtNextPrice calculateAfterLockedCollateral_nonneg
      calculateAfterDebt_nonneg calculateAfterFreeCollateral_nonneg
      calculateAfterBackingCollateral_nonneg)

text \<open>
  The theorem at a vault with a ratio of 1.5 and the prices 2 and 3: both
  hypotheses hold there, and the backing collateral is 4.5 and 3.
\<close>

theorem after_amounts_nonnegative_witness:
  "isFinite (liquidationRatio (ilkData collateralizedState)) \<and>
   gt (liquidationRatio (ilkData collateralizedState)) zero \<and>
   isFinite (currentCollateralPrice (priceInfo collateralizedState)) \<and>
   gt (currentCollateralPrice (priceInfo collateralizedState)) zero \<and>
   isFinite (nextCollateralPrice (priceInfo collateralizedState)) \<and>
   gt (nextCollateralPrice (priceInfo collateralizedState)) zero \<and>
   gte (afterBackingCollateral (applyManageVaultCalculations collateralizedState)) zero \<and>
   gte (afterBackingCollateralAtNextPrice (applyManageVaultCalculations collateralizedState))
     zero \<and>
   afterBackingCollateral (applyManageVaultCalculations collateralizedState) = Num (9 / 2) \<and>
   afterBackingCollateralAtNextPrice (applyManageVaultCalculations collateralizedState) = Num 3"
proof -
  have hyps:
    "isFinite (liquidationRatio (ilkData collateralizedState)) \<and>
     gt (liquidationRatio (ilkData collateralizedState)) zero \<and>
     isFinite (currentCollateralPrice (priceInfo collateralizedState)) \<and>
     gt (currentCollateralPrice (priceInfo collateralizedState)) zero \<and>
     isFinite (nextCollateralPrice (priceInfo collateralizedState)) \<and>
     gt (nextCollateralPrice (priceInfo collateralizedState)) zero"
    by code_simp
  have vals:
    "afterBackingCollateral (applyManageVaultCalculations collateralizedState) = Num (9 / 2) \<and>
     afterBackingCollateralAtNextPrice (applyManageVaultCalculations collateralizedState)
       = Num 3"
    by code_simp
  from hyps vals after_amounts_nonnegative [of collateralizedState] show ?thesis
    by blast
qed

text \<open>
  The claim as stated fails for the backing collateral: at a current price of
  -1 a debt of 100 is backed by -150 units.
\<close>

theorem backing_collateral_negative_counterexample:
  "afterBackingCollateral (applyManageVaultCalculations negativePriceState) = Num (- 150) \<and>
   \<not> gte (afterBackingCollateral (applyManageVaultCalculations negativePriceState)) zero"
  by code_simp

section \<open>The additive amount wins\<close>

text \<open>
  Claim C10. When the deposit and the withdraw amount are both set, the locked
  collateral after the action is the locked collateral plus the deposit,
  clamped at zero: the withdraw amount is ignored. When the generate and the
  payback amount are both set and not all debt is paid back, the debt after the
  action is the debt plus the generate amount, clamped at zero.
\<close>

theorem additive_amount_takes_precedence:
  "(depositAmount s = Some dep \<and> withdrawAmount s = Some w
      \<longrightarrow> afterLockedCollateral (applyManageVaultCalculations s)
            = clampedAtZero (plus_bn (lockedCollateral (vault s)) dep)) \<and>
   (generateAmount s = Some g \<and> paybackAmount s = Some p \<and>
    \<not> shouldPaybackAll (applyManageVaultCalculations s)
      \<longrightarrow> afterDebt (applyManageVaultCalculations s)
            = clampedAtZero (plus_bn (debt (vault s)) g))"
  by (simp add: apply_afterLockedCollateral apply_afterDebt calculateAfterLockedCollateral_def
      calculateAfterDebt_def clampedAtZero_def Let_def)

text \<open>
  The theorem at a state with all four amounts set: 10 + 5 units are locked and
  100 + 10 are owed, the withdrawal of 3 and the payback of 4 have no effect.
\<close>

theorem additive_amount_takes_precedence_witness:
  "depositAmount bothDirectionsState = Some (Num 5) \<and>
   withdrawAmount bothDirectionsState = Some (Num 3) \<and>
   generateAmount bothDirectionsState = Some (Num 10) \<and>
   paybackAmount bothDirectionsState = Some (Num 4) \<and>
   \<not> shouldPaybackAll (applyManageVaultCalculations bothDirectionsState) \<and>
   afterLockedCollateral (applyManageVaultCalculations bothDirectionsState) = Num 15 \<and>
   afterDebt (applyManageVaultCalculations bothDirectionsState) = Num 110"
proof -
  have hyps:
    "depositAmount bothDirectionsState = Some (Num 5) \<and>
     withdrawAmount bothDirectionsState = Some (Num 3) \<and>
     generateAmount bothDirectionsState = Some (Num 10) \<and>
     paybackAmount bothDirectionsState = Some (Num 4) \<and>
     \<not> shouldPaybackAll (applyManageVaultCalculations bothDirectionsState)"
    by code_simp
  have vals:
    "clampedAtZero (plus_bn (lockedCollateral (vault bothDirectionsState)) (Num 5)) = Num 15 \<and>
     clampedAtZero (plus_bn (debt (vault bothDirectionsState)) (Num 10)) = Num 110"
    by code_simp
  from hyps vals
    additive_amount_takes_precedence
      [of bothDirectionsState "Num 5" "Num 3" "Num 10" "Num 4"]
  show ?thesis
    by simp
qed

section \<open>The comparison of transactions\<close>

text \<open>
  Claim C9. For every pair of transactions \<^verbatim>\<open>compareTransactions\<close> returns a
  number: the three cases before the \<^verbatim>\<open>throw\<close> are exhaustive, so the
  exception is never raised, whatever \<^verbatim>\<open>isDone\<close> answers.
\<close>

theorem compareTransactions_returns:
  "\<exists>n. compareTransactions isDone t1 t2 = Inr n"
  by (simp add: compareTransactions_def Let_def)

section \<open>The bound on a withdrawal\<close>

lemma apply_maxWithdrawAmount:
  "maxWithdrawAmount (applyManageVaultCalculations s) =
     minimum (maxWithdrawAmountAtCurrentPrice (applyManageVaultCalculations s))
       (maxWithdrawAmountAtNextPrice (applyManageVaultCalculations s))"
  by (simp add: applyManageVaultCalculations_def Let_def)

lemma apply_maxWithdrawAmountAtCurrentPrice:
  "maxWithdrawAmountAtCurrentPrice (applyManageVaultCalculations s) =
     calculateMaxWithdrawAmount (paybackAmount s)
       (shouldPaybackAll (applyManageVaultCalculations s)) (lockedCollateral (vault s))
       (debt (vault s)) (debtOffset (vault s)) (liquidationRatio (ilkData s))
       (currentCollateralPrice (priceInfo s))"
  by (simp add: applyManageVaultCalculations_def Let_def)

lemma apply_maxWithdrawAmountAtNextPrice:
  "maxWithdrawAmountAtNextPrice (applyManageVaultCalculations s) =
     calculateMaxWithdrawAmount (paybackAmount s)
       (shouldPaybackAll (applyManageVaultCalculations s)) (lockedCollateral (vault s))
       (debt (vault s)) (debtOffset (vault s)) (liquidationRatio (ilkData s))
       (nextCollateralPrice (priceInfo s))"
  by (simp add: applyManageVaultCalculations_def Let_def)

text \<open>
  The debt after the payback has positive sign unless the debt of the vault is
  the zero of negative sign: a difference is that zero only if its first
  operand is, and the clamp lets no negative number pass.
\<close>

lemma plus_bn_NZero: "plus_bn x y = NZero \<Longrightarrow> x = NZero"
  by (cases x; cases y) (simp_all split: BigNumber.splits)

lemma gte_zero_cases: "gte x zero \<Longrightarrow> x = NZero \<or> isPositive x"
  by (cases x) (auto simp: gte_def compare_def zero_def isPositive_def split: if_splits)

lemma isPositive_zero: "isPositive zero"
  by (simp add: isPositive_def zero_def)

lemma calculateAfterDebt_isPositive:
  assumes "d \<noteq> NZero"
  shows "isPositive (calculateAfterDebt paybackAll None payback d)"
proof (cases paybackAll)
  case True
  then show ?thesis by (simp add: calculateAfterDebt_def isPositive_zero)
next
  case False
  define amount where "amount = (case payback of Some p \<Rightarrow> minus_bn d p | None \<Rightarrow> d)"
  have "amount \<noteq> NZero"
    using assms plus_bn_NZero by (auto simp: amount_def minus_bn_def split: option.splits)
  then have "gte amount zero \<Longrightarrow> isPositive amount"
    using gte_zero_cases by blast
  then show ?thesis
    using False by (auto simp: calculateAfterDebt_def Let_def amount_def isPositive_zero)
qed

lemma calculateMaxWithdrawAmount_inflated:
  assumes "isPositive (calculateAfterDebt paybackAll None payback d)"
  shows "calculateMaxWithdrawAmount payback paybackAll locked d offset ratio price =
           calculateAfterFreeCollateral locked
             (calculateAfterBackingCollateral
                (plus_bn (calculateAfterDebt paybackAll None payback d) offset) ratio price)"
  using assms by (simp add: calculateMaxWithdrawAmount_def Let_def)

text \<open>
  Of two numbers that are at least zero, the minimum is one of the two, and
  neither is less than it.
\<close>

lemma minimum_of_nonneg:
  assumes "gte a zero" "gte b zero"
  shows "(minimum a b = a \<or> minimum a b = b) \<and> gte a (minimum a b) \<and> gte b (minimum a b)"
  using assms
  by (cases a; cases b)
     (auto simp: minimum_def gt_def gte_def compare_def zero_def split: if_splits)

lemma calculateMaxWithdrawAmount_nonneg:
  "gte (calculateMaxWithdrawAmount payback paybackAll locked d offset ratio price) zero"
  by (simp add: calculateMaxWithdrawAmount_def Let_def calculateAfterFreeCollateral_nonneg)

text \<open>
  Claim C3. For every input state whose debt is not the zero of negative
  sign, the bound on a withdrawal is the minimum of the bounds at
  the current and at the next price: it is one of the two, and neither is less.
  Each of the two is the free collateral left after backing the debt after the
  payback plus \<^verbatim>\<open>debtOffset\<close> at the liquidation ratio and that price,
  clamped at zero.
\<close>

theorem max_withdraw_amount_is_least_bound:
  assumes "debt (vault s) \<noteq> NZero"
  shows
    "maxWithdrawAmount (applyManageVaultCalculations s) =
       minimum (maxWithdrawAmountAtCurrentPrice (applyManageVaultCalculations s))
         (maxWithdrawAmountAtNextPrice (applyManageVaultCalculations s)) \<and>
     (maxWithdrawAmount (applyManageVaultCalculations s)
        = maxWithdrawAmountAtCurrentPrice (applyManageVaultCalculations s) \<or>
      maxWithdrawAmount (applyManageVaultCalculations s)
        = maxWithdrawAmountAtNextPrice (applyManageVaultCalculations s)) \<and>
     gte (maxWithdrawAmountAtCurrentPrice (applyManageVaultCalculations s))
       (maxWithdrawAmount (applyManageVaultCalculations s)) \<and>
     gte (maxWithdrawAmountAtNextPrice (applyManageVaultCalculations s))
       (maxWithdrawAmount (applyManageVaultCalculations s)) \<and>
     maxWithdrawAmountAtCurrentPrice (applyManageVaultCalculations s)
       = withdrawBoundAsStated s (currentCollateralPrice (priceInfo s)) \<and>
     maxWithdrawAmountAtNextPrice (applyManageVaultCalculations s)
       = withdrawBoundAsStated s (nextCollateralPrice (priceInfo s))"
proof -
  let ?s' = "applyManageVaultCalculations s"
  have pos: "isPositive (calculateAfterDebt (shouldPaybackAll ?s') None (paybackAmount s)
               (debt (vault s)))"
    using assms by (rule calculateAfterDebt_isPositive)
  have cur: "maxWithdrawAmountAtCurrentPrice ?s'
               = withdrawBoundAsStated s (currentCollateralPrice (priceInfo s))"
    using pos
    by (simp add: apply_maxWithdrawAmountAtCurrentPrice apply_shouldPaybackAll
        afterPaybackDebt_def withdrawBoundAsStated_def calculateMaxWithdrawAmount_inflated)
  have nxt: "maxWithdrawAmountAtNextPrice ?s'
               = withdrawBoundAsStated s (nextCollateralPrice (priceInfo s))"
    using pos
    by (simp add: apply_maxWithdrawAmountAtNextPrice apply_shouldPaybackAll
        afterPaybackDebt_def withdrawBoundAsStated_def calculateMaxWithdrawAmount_inflated)
  have nonneg: "gte (maxWithdrawAmountAtCurrentPrice ?s') zero"
    "gte (maxWithdrawAmountAtNextPrice ?s') zero"
    by (simp_all add: apply_maxWithdrawAmountAtCurrentPrice apply_maxWithdrawAmountAtNextPrice
        calculateMaxWithdrawAmount_nonneg)
  have least:
    "(maxWithdrawAmount ?s' = maxWithdrawAmountAtCurrentPrice ?s' \<or>
      maxWithdrawAmount ?s' = maxWithdrawAmountAtNextPrice ?s') \<and>
     gte (maxWithdrawAmountAtCurrentPrice ?s') (maxWithdrawAmount ?s') \<and>
     gte (maxWithdrawAmountAtNextPrice ?s') (maxWithdrawAmount ?s')"
    using minimum_of_nonneg [OF nonneg] by (simp add: apply_maxWithdrawAmount [symmetric])
  from cur nxt least apply_maxWithdrawAmount [of s] show ?thesis
    by blast
qed

text \<open>
  The theorem at a debt of 100 of which 40 are paid back, with an offset of 1:
  61 are backed, which leaves 154.25 of 200 units at the price 2 and 108.5 at
  the price 1. At a vault of 10 units without debt the offset of 1 is backed
  and 8.5 units are left, and when the debt of 100 is all paid back, 199.25 of
  200 units.
\<close>

theorem max_withdraw_amount_is_least_bound_witness:
  "debt (vault paybackState) \<noteq> NZero \<and>
   maxWithdrawAmountAtCurrentPrice (applyManageVaultCalculations paybackState)
     = Num (617 / 4) \<and>
   maxWithdrawAmountAtNextPrice (applyManageVaultCalculations paybackState)
     = Num (217 / 2) \<and>
   maxWithdrawAmount (applyManageVaultCalculations paybackState) = Num (217 / 2) \<and>
   debt (vault noDebtState) \<noteq> NZero \<and>
   maxWithdrawAmount (applyManageVaultCalculations noDebtState) = Num (17 / 2) \<and>
   debt (vault paybackAllState) \<noteq> NZero \<and>
   shouldPaybackAll (applyManageVaultCalculations paybackAllState) \<and>
   maxWithdrawAmount (applyManageVaultCalculations paybackAllState) = Num (797 / 4)"
proof -
  have hyps:
    "debt (vault paybackState) \<noteq> NZero \<and> debt (vault noDebtState) \<noteq> NZero \<and>
     debt (vault paybackAllState) \<noteq> NZero \<and>
     shouldPaybackAll (applyManageVaultCalculations paybackAllState)"
    by code_simp
  have vals:
    "withdrawBoundAsStated paybackState (currentCollateralPrice (priceInfo paybackState))
       = Num (617 / 4) \<and>
     withdrawBoundAsStated paybackState (nextCollateralPrice (priceInfo paybackState))
       = Num (217 / 2) \<and>
     minimum (Num (617 / 4)) (Num (217 / 2)) = Num (217 / 2) \<and>
     withdrawBoundAsStated noDebtState (currentCollateralPrice (priceInfo noDebtState))
       = Num (17 / 2) \<and>
     withdrawBoundAsStated noDebtState (nextCollateralPrice (priceInfo noDebtState))
       = Num (17 / 2) \<and>
     minimum (Num (17 / 2)) (Num (17 / 2)) = Num (17 / 2) \<and>
     withdrawBoundAsStated paybackAllState
       (currentCollateralPrice (priceInfo paybackAllState)) = Num (797 / 4) \<and>
     withdrawBoundAsStated paybackAllState
       (nextCollateralPrice (priceInfo paybackAllState)) = Num (797 / 4) \<and>
     minimum (Num (797 / 4)) (Num (797 / 4)) = Num (797 / 4)"
    by code_simp
  from hyps have h1: "debt (vault paybackState) \<noteq> NZero"
    and h2: "debt (vault noDebtState) \<noteq> NZero"
    and h3: "debt (vault paybackAllState) \<noteq> NZero"
    by simp_all
  from hyps vals max_withdraw_amount_is_least_bound [OF h1]
    max_withdraw_amount_is_least_bound [OF h2] max_withdraw_amount_is_least_bound [OF h3]
  show ?thesis
    by simp
qed

section \<open>What the guards admit\<close>

text \<open>
  The flag to pay back all debt, on finite numbers: the debt is at least zero,
  the balance covers the debt and the offset, and the payback amount is at most
  the debt and at most 0.01 below it. It is never set without a payback amount,
  nor when the balance is less than the debt plus the offset.
\<close>

lemma determineShouldPaybackAll_unset: "\<not> determineShouldPaybackAll None d offset dai"
  by (simp add: determineShouldPaybackAll_def)

lemma determineShouldPaybackAll_needs_balance:
  "lt dai (plus_bn d offset) \<Longrightarrow> \<not> determineShouldPaybackAll payback d offset dai"
  by (auto simp: determineShouldPaybackAll_def lt_def gte_def split: option.splits)

lemma determineShouldPaybackAll_finite:
  "determineShouldPaybackAll (Some (Num p)) (Num d) (Num offset) (Num dai) =
     (0 \<le> d \<and> d + offset \<le> dai \<and> d \<le> p + 1 / 100 \<and> p \<le> d)"
  by (auto simp: determineShouldPaybackAll_def isPositive_def gte_def gt_def compare_def
      PAYBACK_ALL_BOUND_def)

text \<open>
  The liquidation price and the collateralization ratio are the quotients of
  the specification when both operands are greater than zero, and the yield is
  the specification's on finite numbers but for a ceiling of zero.
\<close>

lemma apply_afterLiquidationPrice:
  "afterLiquidationPrice (applyManageVaultCalculations s) =
     (if isPositive (afterDebt (applyManageVaultCalculations s)) \<and>
         isPositive (afterLockedCollateral (applyManageVaultCalculations s))
      then div_bn (times_bn (afterDebt (applyManageVaultCalculations s))
                     (liquidationRatio (ilkData s)))
             (afterLockedCollateral (applyManageVaultCalculations s))
      else zero)"
  by (simp add: applyManageVaultCalculations_def Let_def)

lemma apply_afterCollateralizationRatio:
  "afterCollateralizationRatio (applyManageVaultCalculations s) =
     (if isPositive (times_bn (afterLockedCollateral (applyManageVaultCalculations s))
                       (currentCollateralPrice (priceInfo s))) \<and>
         isPositive (afterDebt (applyManageVaultCalculations s))
      then div_bn (times_bn (afterLockedCollateral (applyManageVaultCalculations s))
                     (currentCollateralPrice (priceInfo s)))
             (afterDebt (applyManageVaultCalculations s))
      else zero)"
  by (simp add: applyManageVaultCalculations_def Let_def)


lemma afterLiquidationPrice_of_positive:
  "gt (afterDebt (applyManageVaultCalculations s)) zero
     \<Longrightarrow> gt (afterLockedCollateral (applyManageVaultCalculations s)) zero
     \<Longrightarrow> afterLiquidationPrice (applyManageVaultCalculations s) =
           div_bn (times_bn (afterDebt (applyManageVaultCalculations s))
                     (liquidationRatio (ilkData s)))
             (afterLockedCollateral (applyManageVaultCalculations s))"
  by (simp add: apply_afterLiquidationPrice gt_zero_isPositive)

lemma afterCollateralizationRatio_of_positive:
  "gt (times_bn (afterLockedCollateral (applyManageVaultCalculations s))
         (currentCollateralPrice (priceInfo s))) zero
     \<Longrightarrow> gt (afterDebt (applyManageVaultCalculations s)) zero
     \<Longrightarrow> afterCollateralizationRatio (applyManageVaultCalculations s) =
           div_bn (times_bn (afterLockedCollateral (applyManageVaultCalculations s))
                     (currentCollateralPrice (priceInfo s)))
             (afterDebt (applyManageVaultCalculations s))"
  by (simp add: apply_afterCollateralizationRatio gt_zero_isPositive)

lemma calculateDaiYieldFromCollateral_finite_values:
  assumes "minus_bn (div_bn (times_bn collateral price) ratio) d = Num y"
    "available = Num a"
  shows "calculateDaiYieldFromCollateral d ratio generate payback price collateral available =
           (if y \<le> 0 then Num 0
            else if a < y then
              (if 0 \<le> a
               then clampedAtZero (minus_bn (plus_bn (Num a) (orZero payback)) (orZero generate))
               else Num 0)
            else Num y)"
  using assms
  by (auto simp: calculateDaiYieldFromCollateral_def Let_def isPositive_def gt_def compare_def
      clampedAtZero_def zero_def)

section \<open>Errors and divisions\<close>

















section \<open>The sign test at zero\<close>

text \<open>
  The guards of the calculation test the sign with \<^verbatim>\<open>isPositive\<close>, which
  holds of a zero of positive sign. So a value of zero passes each guard that
  is to keep zero out.

  Claim C2 at a vault without debt and a payback amount of 0: the debt is not
  greater than zero, and all debt is to be paid back.
\<close>

theorem payback_all_without_debt:
  "debt (vault zeroDebtPaybackState) = Num 0 \<and>
   \<not> gt (debt (vault zeroDebtPaybackState)) zero \<and>
   shouldPaybackAll (applyManageVaultCalculations zeroDebtPaybackState)"
  by code_simp

text \<open>
  Claim C5 at a ceiling that leaves no debt available, a debt of 100 and a
  payback of 50: the yield is not zero but the 50 paid back.
\<close>

theorem yield_at_exhausted_ceiling:
  "ilkDebtAvailable (ilkData ceilingExhaustedState) = Num 0 \<and>
   \<not> gt (ilkDebtAvailable (ilkData ceilingExhaustedState)) zero \<and>
   daiYieldFromTotalCollateral (applyManageVaultCalculations ceilingExhaustedState) = Num 50 \<and>
   daiYieldFromTotalCollateralAtNextPrice (applyManageVaultCalculations ceilingExhaustedState)
     = Num 50"
  by code_simp

text \<open>
  Claim C7 at a vault all of whose collateral is withdrawn while a debt of 100
  stays: the liquidation price is not zero but Infinity. For the debt of 100
  on 200 units at the ratio 1.5 it is 0.75, as the specification has it.
\<close>

theorem liquidation_price_without_collateral:
  "afterLockedCollateral (applyManageVaultCalculations withdrawAllState) = Num 0 \<and>
   afterDebt (applyManageVaultCalculations withdrawAllState) = Num 100 \<and>
   afterLiquidationPrice (applyManageVaultCalculations withdrawAllState) = PInf \<and>
   afterLiquidationPrice (applyManageVaultCalculations liquidationPriceExample)
     = Num (3 / 4)"
  by code_simp

text \<open>
  Claim C8 at the specification's deposit of 5 units into a vault of 10 units
  without debt: the debt after the action is zero, and the collateralization
  ratio is not zero but Infinity, at either price.
\<close>

theorem collateralization_ratio_without_debt:
  "afterLockedCollateral (applyManageVaultCalculations depositExample) = Num 15 \<and>
   afterDebt (applyManageVaultCalculations depositExample) = Num 0 \<and>
   afterCollateralizationRatio (applyManageVaultCalculations depositExample) = PInf \<and>
   afterCollateralizationRatioAtNextPrice (applyManageVaultCalculations depositExample)
     = PInf"
  by code_simp

section \<open>The notification\<close>

lemma sortBy_compareTransactions_returns:
  "\<exists>ys. sortBy (compareTransactions isDone) xs = Inr ys"
proof (induction xs)
  case Nil
  show ?case by simp
next
  case (Cons x xs)
  then obtain ys where ys: "sortBy (compareTransactions isDone) xs = Inr ys" by blast
  have "\<exists>zs. insertSorted (compareTransactions isDone) x ys = Inr zs"
  proof (induction ys)
    case Nil
    show ?case by simp
  next
    case (Cons y ys)
    then show ?case
      by (auto simp: compareTransactions_def Let_def)
  qed
  with ys show ?case by simp
qed

lemma transactionManager_returns: "\<exists>m. transactionManager isDone now xs = Inr m"
  using sortBy_compareTransactions_returns [of isDone xs]
  by (auto simp: transactionManager_def)

text \<open>A transaction that waits for a signature is the notification, before all others.\<close>

lemma sign_transaction_first:
  "withCase [SignCase] transactions = t # ts
     \<Longrightarrow> notificationTransaction (filterTransactions now transactions)
           = Some \<lparr>tx = t, withDescription = True\<rparr>"
  by (simp add: filterTransactions_def Let_def split: list.splits)

text \<open>
  The specification's examples: of a failure 5 seconds old and a propagating
  transaction the failure is the notification; a single failure is the
  notification after 5 seconds and none after 20 seconds.
\<close>

lemma notification_examples:
  "transactionManager isDone 100000 [propagating, recentFailure] =
     Inr \<lparr>pendingTransactions = [propagating], recentTransactions = [recentFailure],
          notificationTransaction = Some \<lparr>tx = recentFailure, withDescription = True\<rparr>\<rparr>"
  "transactionManager isDone 100000 [recentFailure] =
     Inr \<lparr>pendingTransactions = [], recentTransactions = [recentFailure],
          notificationTransaction = Some \<lparr>tx = recentFailure, withDescription = True\<rparr>\<rparr>"
  "transactionManager isDone 100000 [expiredFailure] =
     Inr \<lparr>pendingTransactions = [], recentTransactions = [expiredFailure],
          notificationTransaction = None\<rparr>"
  by (cases "isDone Failure"; cases "isDone Propagating";
      simp add: transactionManager_def compareTransactions_def isTxDone_def
        filterTransactions_def withCase_def statusCase_def withinTenSeconds_def
        pastTenSeconds_def propagating_def recentFailure_def expiredFailure_def)+

text \<open>
  A transaction chosen by one of the two loops is within its 10 seconds, so an
  error or a success that is more than 10 seconds old is never the notification.
\<close>

lemma timeBased_within:
  assumes "\<forall>m. n = Some m \<longrightarrow> withinTenSeconds now (tx m) \<and> tx m \<in> A"
    and "set ts \<subseteq> A"
  shows "\<forall>m. timeBased now ts n = Some m \<longrightarrow> withinTenSeconds now (tx m) \<and> tx m \<in> A"
  using assms
proof (induction ts arbitrary: n)
  case Nil
  then show ?case by simp
next
  case (Cons t ts)
  show ?case
    unfolding timeBased.simps
    by (rule Cons.IH) (use Cons.prems in auto)
qed

lemma set_withCase: "t \<in> set (withCase cs transactions) \<Longrightarrow> statusCase (status t) \<in> set cs"
  by (simp add: withCase_def)

lemma expired_never_selected:
  assumes "notificationTransaction (filterTransactions now transactions) = Some m"
    and "statusCase (status (tx m)) = ErrorCase \<or> statusCase (status (tx m)) = SuccessCase"
  shows "withinTenSeconds now (tx m)"
proof -
  let ?sign = "withCase [SignCase] transactions"
  let ?err = "withCase [ErrorCase] transactions"
  let ?suc = "withCase [SuccessCase] transactions"
  let ?sub = "withCase [SubmittedCase] transactions"
  have e: "\<forall>k. timeBased now ?err None = Some k
             \<longrightarrow> withinTenSeconds now (tx k) \<and> tx k \<in> set ?err"
    by (rule timeBased_within) simp_all
  have s: "\<forall>k. timeBased now ?suc None = Some k
             \<longrightarrow> withinTenSeconds now (tx k) \<and> tx k \<in> set ?suc"
    by (rule timeBased_within) simp_all
  show ?thesis
  proof (cases ?sign)
    case (Cons t ts)
    then have "t \<in> set ?sign" by simp
    then have "statusCase (status t) = SignCase" using set_withCase by fastforce
    moreover have "m = \<lparr>tx = t, withDescription = True\<rparr>"
      using assms(1) Cons by (simp add: filterTransactions_def Let_def split: list.splits)
    ultimately show ?thesis using assms(2) by simp
  next
    case Nil
    show ?thesis
    proof (cases "timeBased now ?err None")
      case (Some k)
      then have "m = k"
        using assms(1) Nil
        by (cases ?err) (auto simp: filterTransactions_def Let_def split: list.splits)
      then show ?thesis using e Some by simp
    next
      case None
      note errNone = this
      show ?thesis
      proof (cases "timeBased now ?suc None")
        case (Some k)
        then have "m = k"
          using assms(1) Nil errNone
          by (cases ?suc; cases ?err)
             (auto simp: filterTransactions_def Let_def split: list.splits)
        then show ?thesis using s Some by simp
      next
        case None
        then obtain t ts where sub: "?sub = t # ts"
          and m: "m = \<lparr>tx = t, withDescription = withinTenSeconds now t\<rparr>"
          using assms(1) Nil errNone
          by (cases ?sub; cases ?suc; cases ?err)
             (auto simp: filterTransactions_def Let_def split: list.splits)
        then have "t \<in> set ?sub" by simp
        then have "statusCase (status t) = SubmittedCase" using set_withCase by fastforce
        then show ?thesis using assms(2) m by simp
      qed
    qed
  qed
qed

text \<open>
  Claim C6 at two failures, 5 and 20 seconds old. The failure 5 seconds old is
  chosen by the loop over the error transactions, and the next turn of the loop
  drops it again, because the other failure is more than 10 seconds old. No
  notification is left, and beside a propagating transaction the notification is
  that one, although an error within its 10 seconds ranks above it.
\<close>

theorem recent_error_dropped_for_older_error:
  "withinTenSeconds 100000 recentFailure \<and>
   transactionManager isDone 100000 [expiredFailure, recentFailure] =
     Inr \<lparr>pendingTransactions = [],
          recentTransactions = [recentFailure, expiredFailure],
          notificationTransaction = None\<rparr> \<and>
   transactionManager isDone 100000 [expiredFailure, propagating, recentFailure] =
     Inr \<lparr>pendingTransactions = [propagating],
          recentTransactions = [recentFailure, expiredFailure],
          notificationTransaction = Some \<lparr>tx = propagating, withDescription = True\<rparr>\<rparr>"
  by (cases "isDone Failure"; cases "isDone Propagating")
     (simp_all add: transactionManager_def compareTransactions_def isTxDone_def
        filterTransactions_def withCase_def statusCase_def withinTenSeconds_def
        pastTenSeconds_def propagating_def recentFailure_def expiredFailure_def)

end
